theory Spec2Isabelle
  imports Main "HOL-Library.AList" "HOL-Library.List_Lexorder" "HOL-Library.Multiset"
begin

section \<open>Python values\<close>

text \<open>
  A Python \<open>str\<close> is a sequence of Unicode code points; \<open>len\<close>, indexing and the
  comparison used by \<open>sorted\<close> all work on code points. Dictionary keys, attribute names
  and the other identifiers that the source writes as ASCII literals are kept as
  Isabelle strings.
\<close>

type_synonym codepoint = nat
type_synonym pystr = "codepoint list"

definition str :: "string \<Rightarrow> pystr" where
  "str cs = map of_char cs"

datatype exn = KeyError string | OSError nat

datatype pyval = PyNone | PyBool bool | PyInt int | PyStr pystr

definition dict_get :: "('k \<rightharpoonup> 'v) \<Rightarrow> 'k \<Rightarrow> 'v \<Rightarrow> 'v" where
  "dict_get d k dflt = (case d k of None \<Rightarrow> dflt | Some v \<Rightarrow> v)"

definition dict_getitem :: "(string \<rightharpoonup> 'v) \<Rightarrow> string \<Rightarrow> exn + 'v" where
  "dict_getitem d k = (case d k of None \<Rightarrow> Inl (KeyError k) | Some v \<Rightarrow> Inr v)"

text \<open>
  A raised exception is the left summand of the result; \<open>and_then\<close> sequences two
  statements, the second running only when the first raised nothing.
\<close>

definition and_then :: "'e + 'a \<Rightarrow> ('a \<Rightarrow> 'e + 'b) \<Rightarrow> 'e + 'b" where
  "and_then m f = (case m of Inl e \<Rightarrow> Inl e | Inr x \<Rightarrow> f x)"

text \<open>\<open>str(v)\<close> for the values that occur as choice keys and widget attributes.\<close>

fun nat_digits :: "nat \<Rightarrow> pystr" where
  "nat_digits n = (if n < 10 then [0x30 + n] else nat_digits (n div 10) @ [0x30 + n mod 10])"

definition py_str :: "pyval \<Rightarrow> pystr" where
  "py_str v =
     (case v of
        PyNone \<Rightarrow> str ''None''
      | PyBool b \<Rightarrow> (if b then str ''True'' else str ''False'')
      | PyInt i \<Rightarrow> (if i < 0 then 0x2D # nat_digits (nat (- i)) else nat_digits (nat i))
      | PyStr s \<Rightarrow> s)"


section \<open>\<open>str.lower\<close> and \<open>str.capitalize\<close>\<close>

text \<open>
  Both methods consult the Unicode character database of the Python runtime, which is
  not part of the repository. The model takes it as a parameter: the full title-case
  and lower-case mappings of a code point (one to three code points each) and the
  properties \<open>Cased\<close> and \<open>Case_Ignorable\<close>. The full upper-case mapping is part of
  the database as well; neither method reads it, and it serves to say what the upper
  case of a character is.
\<close>

record unicode_db =
  to_title_full :: "codepoint \<Rightarrow> codepoint list"
  to_lower_full :: "codepoint \<Rightarrow> codepoint list"
  to_upper_full :: "codepoint \<Rightarrow> codepoint list"
  is_cased :: "codepoint \<Rightarrow> bool"
  is_case_ignorable :: "codepoint \<Rightarrow> bool"

text \<open>
  GREEK CAPITAL LETTER SIGMA (U+03A3) is the one character whose lower-case form
  depends on its neighbours: it becomes the final sigma U+03C2 when the nearest
  character before it that is not case-ignorable is cased, and the nearest such
  character after it (if any) is not; otherwise it becomes U+03C3.
\<close>

definition handle_capital_sigma :: "unicode_db \<Rightarrow> pystr \<Rightarrow> nat \<Rightarrow> codepoint" where
  "handle_capital_sigma db data i =
     (let before = dropWhile (is_case_ignorable db) (rev (take i data));
          after = dropWhile (is_case_ignorable db) (drop (Suc i) data);
          cased_before = (case before of [] \<Rightarrow> False | c # _ \<Rightarrow> is_cased db c);
          cased_after = (case after of [] \<Rightarrow> False | c # _ \<Rightarrow> is_cased db c)
      in if cased_before \<and> \<not> cased_after then 0x3C2 else 0x3C3)"

definition lower_ucs4 :: "unicode_db \<Rightarrow> pystr \<Rightarrow> nat \<Rightarrow> codepoint list" where
  "lower_ucs4 db data i =
     (let c = data ! i
      in if c = 0x3A3 then [handle_capital_sigma db data i] else to_lower_full db c)"

definition str_lower :: "unicode_db \<Rightarrow> pystr \<Rightarrow> pystr" where
  "str_lower db s = concat (map (lower_ucs4 db s) [0..<length s])"

text \<open>
  \<open>capitalize\<close> returns the empty string unchanged; otherwise the first character is
  replaced by its title-case mapping (Python 3.8 and later; the full mapping, which may
  be several code points) and every later character is lower-cased in the context of
  the whole string.
\<close>

definition str_capitalize :: "unicode_db \<Rightarrow> pystr \<Rightarrow> pystr" where
  "str_capitalize db s =
     (if length s = 0 then s
      else to_title_full db (s ! 0) @ concat (map (lower_ucs4 db s) [1..<length s]))"


subsection \<open>The database on Latin-1 text\<close>

text \<open>
  The entries of the Unicode character database for the blocks Basic Latin and Latin-1
  Supplement (U+0000 to U+00FF), for the characters their mappings reach (U+0178,
  U+039C, U+03BC), for the sigmas (U+03A3, U+03C2, U+03C3), for U+0149 with the
  apostrophe U+02BC of its title-case mapping, and for the digraph letters U+01C4
  (upper case), U+01C5 (title case) and U+01C6 (lower case). The record is used to evaluate the
  string methods on concrete text over these characters; every other code point is
  left unchanged by it. The entry for U+0149 is the line
  \<open>0149; 0149; 02BC 004E; 02BC 004E\<close> of the database's special casing table (lower,
  title and upper case).
\<close>

definition latin1_to_lower_full :: "codepoint \<Rightarrow> codepoint list" where
  "latin1_to_lower_full c =
     (if 0x41 \<le> c \<and> c \<le> 0x5A then [c + 0x20]
      else if 0xC0 \<le> c \<and> c \<le> 0xDE \<and> c \<noteq> 0xD7 then [c + 0x20]
      else if c = 0x178 then [0xFF]
      else if c = 0x1C4 \<or> c = 0x1C5 then [0x1C6]
      else if c = 0x39C then [0x3BC]
      else if c = 0x3A3 then [0x3C3]
      else [c])"

definition latin1_to_title_full :: "codepoint \<Rightarrow> codepoint list" where
  "latin1_to_title_full c =
     (if 0x61 \<le> c \<and> c \<le> 0x7A then [c - 0x20]
      else if c = 0xB5 then [0x39C]
      else if c = 0xDF then [0x53, 0x73]
      else if 0xE0 \<le> c \<and> c \<le> 0xFE \<and> c \<noteq> 0xF7 then [c - 0x20]
      else if c = 0xFF then [0x178]
      else if c = 0x149 then [0x2BC, 0x4E]
      else if c = 0x1C4 \<or> c = 0x1C6 then [0x1C5]
      else if c = 0x3BC then [0x39C]
      else if c = 0x3C2 \<or> c = 0x3C3 then [0x3A3]
      else [c])"

definition latin1_to_upper_full :: "codepoint \<Rightarrow> codepoint list" where
  "latin1_to_upper_full c =
     (if 0x61 \<le> c \<and> c \<le> 0x7A then [c - 0x20]
      else if c = 0xB5 then [0x39C]
      else if c = 0xDF then [0x53, 0x53]
      else if 0xE0 \<le> c \<and> c \<le> 0xFE \<and> c \<noteq> 0xF7 then [c - 0x20]
      else if c = 0xFF then [0x178]
      else if c = 0x149 then [0x2BC, 0x4E]
      else if c = 0x1C5 \<or> c = 0x1C6 then [0x1C4]
      else if c = 0x3BC then [0x39C]
      else if c = 0x3C2 \<or> c = 0x3C3 then [0x3A3]
      else [c])"

definition latin1_is_cased :: "codepoint \<Rightarrow> bool" where
  "latin1_is_cased c =
     ((0x41 \<le> c \<and> c \<le> 0x5A) \<or> (0x61 \<le> c \<and> c \<le> 0x7A)
      \<or> c \<in> set [0xAA, 0xB5, 0xBA]
      \<or> (0xC0 \<le> c \<and> c \<le> 0xFF \<and> c \<noteq> 0xD7 \<and> c \<noteq> 0xF7)
      \<or> c \<in> set [0x149, 0x178, 0x1C4, 0x1C5, 0x1C6, 0x39C, 0x3BC, 0x3A3, 0x3C2, 0x3C3])"

definition latin1_is_case_ignorable :: "codepoint \<Rightarrow> bool" where
  "latin1_is_case_ignorable c =
     (c \<in> set [0x27, 0x2E, 0x3A, 0x5E, 0x60, 0xA8, 0xAD, 0xAF, 0xB4, 0xB7, 0xB8, 0x2BC])"

definition latin1_db :: unicode_db where
  "latin1_db =
     \<lparr>to_title_full = latin1_to_title_full, to_lower_full = latin1_to_lower_full,
      to_upper_full = latin1_to_upper_full,
      is_cased = latin1_is_cased, is_case_ignorable = latin1_is_case_ignorable\<rparr>"


section \<open>RegistroForm and EditarUsuarioForm\<close>

text \<open>
  \<open>cleaned_data\<close> maps a field name to the value its field produced; the three fields
  below are character fields, so their values are strings. \<open>RegistroForm\<close> reads the
  value with \<open>.get(name, '')\<close>, \<open>EditarUsuarioForm\<close> with \<open>[name]\<close>.
\<close>

type_synonym cleaned_data = "string \<rightharpoonup> pystr"

definition RegistroForm_clean_first_name :: "unicode_db \<Rightarrow> cleaned_data \<Rightarrow> exn + pystr" where
  "RegistroForm_clean_first_name db cleaned_data =
     (let first_name = dict_get cleaned_data ''first_name'' []
      in Inr (str_capitalize db first_name))"

definition RegistroForm_clean_last_name :: "unicode_db \<Rightarrow> cleaned_data \<Rightarrow> exn + pystr" where
  "RegistroForm_clean_last_name db cleaned_data =
     (let last_name = dict_get cleaned_data ''last_name'' []
      in Inr (str_capitalize db last_name))"


definition EditarUsuarioForm_clean_first_name :: "unicode_db \<Rightarrow> cleaned_data \<Rightarrow> exn + pystr" where
  "EditarUsuarioForm_clean_first_name db cleaned_data =
     (case dict_getitem cleaned_data ''first_name'' of
        Inl e \<Rightarrow> Inl e
      | Inr v \<Rightarrow> Inr (str_capitalize db v))"

definition EditarUsuarioForm_clean_last_name :: "unicode_db \<Rightarrow> cleaned_data \<Rightarrow> exn + pystr" where
  "EditarUsuarioForm_clean_last_name db cleaned_data =
     (case dict_getitem cleaned_data ''last_name'' of
        Inl e \<Rightarrow> Inl e
      | Inr v \<Rightarrow> Inr (str_capitalize db v))"


subsection \<open>Stability of the case mappings\<close>

text \<open>
  A code point is stable under lower-casing when it is not the capital sigma and its
  lower-case mapping is itself. The Unicode character database has the two properties
  collected in \<open>case_mappings_stable\<close>: lower-casing produces only stable code points,
  and a title-case mapping starts with a code point that is its own title case.
\<close>

definition lower_stable :: "unicode_db \<Rightarrow> codepoint \<Rightarrow> bool" where
  "lower_stable db d = (d \<noteq> 0x3A3 \<and> to_lower_full db d = [d])"

definition case_mappings_stable :: "unicode_db \<Rightarrow> bool" where
  "case_mappings_stable db =
     ((\<forall>c. list_all (lower_stable db) (to_lower_full db c))
      \<and> lower_stable db 0x3C2 \<and> lower_stable db 0x3C3
      \<and> (\<forall>c. to_title_full db c \<noteq> []
             \<and> to_title_full db (hd (to_title_full db c)) = [hd (to_title_full db c)]))"





section \<open>Form fields and widgets\<close>

text \<open>
  The model classes (\<open>Viaje\<close>, \<open>Piloto\<close>, \<open>Guia\<close>) are not in the source file, so the
  dictionary \<open>self.fields\<close> that \<open>super().__init__()\<close> builds from them is the input of
  each constructor below. It is an ordered dictionary: an association list, read with
  \<open>map_of\<close> and written with \<open>AList.update\<close>, which replaces the value of a key in place
  and appends a new key at the end.
\<close>

datatype widget_class =
  TextInput | NumberInput | EmailInput | URLInput | PasswordInput | HiddenInput
  | DateInput | DateTimeInput | TimeInput | Textarea | CheckboxInput
  | Select | NullBooleanSelect | SelectMultiple | RadioSelect | CheckboxSelectMultiple
  | FileInput | ClearableFileInput

record widget =
  widget_class :: widget_class
  attrs :: "(string \<times> pyval) list"

datatype field_class =
  CharField | IntegerField | FloatField | DecimalField | BooleanField | DateField
  | EmailField | ImageField | ChoiceField | ModelChoiceField | ModelMultipleChoiceField

text \<open>
  \<open>queryset\<close> is \<open>None\<close> for a field without that attribute (\<open>hasattr\<close> is false) and
  otherwise holds the primary keys of the rows the query would return.
\<close>

record field =
  field_class :: field_class
  required :: bool
  label :: "pystr option"
  widget :: widget
  choices :: "(pyval \<times> pystr) list"
  queryset :: "nat list option"
  empty_label :: "pystr option"

type_synonym fields = "(string \<times> field) list"

definition set_widget_attr :: "string \<Rightarrow> pyval \<Rightarrow> field \<Rightarrow> field" where
  "set_widget_attr k v f = f\<lparr>widget := (widget f)\<lparr>attrs := AList.update k v (attrs (widget f))\<rparr>\<rparr>"

text \<open>\<open>field.widget.attrs.get(k)\<close>.\<close>

definition widget_attr :: "field \<Rightarrow> string \<Rightarrow> pyval option" where
  "widget_attr f k = map_of (attrs (widget f)) k"

definition styled :: "field \<Rightarrow> bool" where
  "styled f =
     (widget_class (widget f) = CheckboxSelectMultiple
      \<or> widget_attr f ''class'' = Some (PyStr (str ''form-control'')))"

text \<open>\<open>self.fields[k].x = v\<close>: a \<open>KeyError\<close> when the key is missing.\<close>

definition setattr_field :: "string \<Rightarrow> (field \<Rightarrow> field) \<Rightarrow> fields \<Rightarrow> exn + fields" where
  "setattr_field k g fs =
     and_then (dict_getitem (map_of fs) k) (\<lambda>f. Inr (AList.update k (g f) fs))"

definition isinstance_CheckboxSelectMultiple :: "widget \<Rightarrow> bool" where
  "isinstance_CheckboxSelectMultiple w = (widget_class w = CheckboxSelectMultiple)"

definition queryset_exists :: "nat list \<Rightarrow> bool" where
  "queryset_exists qs = (qs \<noteq> [])"


section \<open>GuiaForm\<close>

definition GuiaForm_init :: "fields \<Rightarrow> fields" where
  "GuiaForm_init fields0 =
     map (\<lambda>(name, field). (name, set_widget_attr ''class'' (PyStr (str ''form-control'')) field))
       fields0"


section \<open>ViajeForm\<close>

definition ViajeForm_activo :: field where
  "ViajeForm_activo =
     \<lparr>field_class = ChoiceField, required = True, label = Some (str ''Estado''),
      widget = \<lparr>widget_class = Select, attrs = [(''class'', PyStr (str ''form-control''))]\<rparr>,
      choices = [(PyBool True, str ''Activo''), (PyBool False, str ''Borrador'')],
      queryset = None, empty_label = None\<rparr>"

definition ViajeForm_style_fields :: "fields \<Rightarrow> fields" where
  "ViajeForm_style_fields fields0 =
     map (\<lambda>(field_name, field).
            (field_name,
             if \<not> isinstance_CheckboxSelectMultiple (widget field)
             then set_widget_attr ''class'' (PyStr (str ''form-control'')) field
             else field))
       fields0"

text \<open>
  The label of the empty option of \<open>guia\<close>. A field object is always true in a condition,
  so the guard \<open>guia_field and hasattr(guia_field, 'queryset')\<close> asks that the key is
  present and that its field has a queryset.
\<close>

definition ViajeForm_guia_label :: "fields \<Rightarrow> fields" where
  "ViajeForm_guia_label fields0 =
     (case map_of fields0 ''guia'' of
        None \<Rightarrow> fields0
      | Some guia_field \<Rightarrow>
          (case queryset guia_field of
             None \<Rightarrow> fields0
           | Some qs \<Rightarrow>
               AList.update ''guia''
                 (guia_field\<lparr>empty_label :=
                    Some (if \<not> queryset_exists qs
                          then str ''A'' @ [0xFA] @ str ''n sin asignar''
                          else str ''Seleccione una gu'' @ [0xED] @ str ''a'')\<rparr>)
                 fields0))"

definition ViajeForm_init :: "fields \<Rightarrow> exn + fields" where
  "ViajeForm_init fields0 =
     and_then (Inr (ViajeForm_style_fields fields0)) (\<lambda>fields1.
     and_then (setattr_field ''pilotos''
                 (set_widget_attr ''id'' (PyStr (str ''id_pilotos''))) fields1) (\<lambda>fields2.
     and_then (setattr_field ''km''
                 (\<lambda>f. f\<lparr>label := Some (str ''Kil'' @ [0xF3] @ str ''metros'')\<rparr>) fields2) (\<lambda>fields3.
     and_then (setattr_field ''max_pilotos''
                 (\<lambda>f. f\<lparr>label := Some (str ''M'' @ [0xE1] @ str ''xima cantidad de pilotos'')\<rparr>)
                 fields3) (\<lambda>fields4.
     Inr (AList.update ''activo'' ViajeForm_activo (ViajeForm_guia_label fields4))))))"


section \<open>PilotoForm\<close>

text \<open>
  The constructor reads the process configuration (\<open>settings.BASE_DIR\<close>) and the file
  system (\<open>os.listdir\<close>, which raises \<open>OSError\<close> when the directory cannot be listed).
\<close>

record environment =
  BASE_DIR :: pystr
  listdir :: "pystr \<Rightarrow> exn + pystr list"

definition os_path_join :: "pystr \<Rightarrow> pystr \<Rightarrow> pystr" where
  "os_path_join a b =
     (if (case b of [] \<Rightarrow> False | c # _ \<Rightarrow> c = 0x2F) then b
      else if a = [] \<or> last a = 0x2F then a @ b
      else a @ [0x2F] @ b)"

text \<open>The class attribute \<open>avatar = forms.ChoiceField(choices=[], widget=forms.RadioSelect)\<close>.\<close>

definition PilotoForm_avatar :: field where
  "PilotoForm_avatar =
     \<lparr>field_class = ChoiceField, required = True, label = None,
      widget = \<lparr>widget_class = RadioSelect, attrs = []\<rparr>,
      choices = [], queryset = None, empty_label = None\<rparr>"

definition PilotoForm_init :: "environment \<Rightarrow> fields \<Rightarrow> exn + fields" where
  "PilotoForm_init env fields0 =
     (let avatars_dir = os_path_join (BASE_DIR env) (str ''static/avatars'')
      in and_then (listdir env avatars_dir) (\<lambda>names.
           let avatars = sort names
           in setattr_field ''avatar''
                (\<lambda>f. f\<lparr>choices := map (\<lambda>a. (PyStr a, a)) avatars\<rparr>) fields0))"


subsection \<open>Validation of a choice field\<close>

text \<open>
  \<open>ChoiceField.clean\<close> as the form library defines it: \<open>to_python\<close> turns a missing or
  empty submission into the empty string; \<open>validate\<close> first raises \<open>required\<close> for an
  empty value of a required field, then \<open>invalid_choice\<close> for a non-empty value that
  matches no choice key.
\<close>

datatype validation_error = ValidationError string

definition ChoiceField_to_python :: "pystr option \<Rightarrow> pystr" where
  "ChoiceField_to_python v = (case v of None \<Rightarrow> [] | Some s \<Rightarrow> s)"

definition valid_value :: "field \<Rightarrow> pystr \<Rightarrow> bool" where
  "valid_value f v = list_ex (\<lambda>(k, _). PyStr v = k \<or> v = py_str k) (choices f)"

definition Field_validate :: "field \<Rightarrow> pystr \<Rightarrow> validation_error + unit" where
  "Field_validate f v =
     (if v = [] \<and> required f then Inl (ValidationError ''required'') else Inr ())"

definition ChoiceField_validate :: "field \<Rightarrow> pystr \<Rightarrow> validation_error + unit" where
  "ChoiceField_validate f v =
     and_then (Field_validate f v) (\<lambda>_.
       if v \<noteq> [] \<and> \<not> valid_value f v then Inl (ValidationError ''invalid_choice'')
       else Inr ())"

definition ChoiceField_clean :: "field \<Rightarrow> pystr option \<Rightarrow> validation_error + pystr" where
  "ChoiceField_clean f submitted =
     (let v = ChoiceField_to_python submitted
      in and_then (ChoiceField_validate f v) (\<lambda>_. Inr v))"


section \<open>Example inputs\<close>

text \<open>
  Field dictionaries of the shape the form library builds for the names listed in each
  \<open>Meta.fields\<close>, with its default widgets and the widgets the classes declare. The
  types of the model fields are not in the source; those below are chosen for the
  examples. A many-to-many model field yields a \<open>ModelMultipleChoiceField\<close> whose
  default widget is \<open>SelectMultiple\<close>. The \<open>type\<close> given to a \<open>DateInput\<close> becomes the input
  type of the widget and is not kept among its attributes.
\<close>

definition plain_field :: "field_class \<Rightarrow> widget_class \<Rightarrow> (string \<times> pyval) list \<Rightarrow> field" where
  "plain_field fc wc as =
     \<lparr>field_class = fc, required = True, label = None,
      widget = \<lparr>widget_class = wc, attrs = as\<rparr>,
      choices = [], queryset = None, empty_label = None\<rparr>"

definition fecha_nac :: field where
  "fecha_nac =
     (plain_field DateField DateInput [])
       \<lparr>required := False, label := Some (str ''Fecha de nacimiento'')\<rparr>"

definition GuiaForm_example_fields :: fields where
  "GuiaForm_example_fields =
     [(''nombre'', plain_field CharField TextInput []),
      (''apellido'', plain_field CharField TextInput []),
      (''email'', plain_field EmailField EmailInput []),
      (''dni'', plain_field CharField TextInput []),
      (''telefono'', plain_field CharField TextInput []),
      (''fecha_nac'', fecha_nac),
      (''ciudad'', plain_field CharField TextInput []),
      (''pais'', plain_field CharField TextInput []),
      (''sobre_mi'', plain_field CharField Textarea [(''rows'', PyInt 4)]),
      (''foto'', (plain_field ImageField ClearableFileInput [])\<lparr>required := False\<rparr>)]"

definition PilotoForm_example_fields :: fields where
  "PilotoForm_example_fields =
     [(''telefono'', plain_field CharField TextInput []),
      (''fecha_nac'', fecha_nac),
      (''ciudad'', plain_field CharField TextInput []),
      (''pais'', plain_field CharField TextInput []),
      (''sobre_mi'', plain_field CharField Textarea [(''rows'', PyInt 4)]),
      (''moto'', plain_field CharField TextInput []),
      (''avatar'', PilotoForm_avatar)]"

text \<open>
  An environment whose project directory is \<open>/app\<close>: the avatar directory holds the given
  names, and no other directory exists (\<open>errno\<close> 2).
\<close>

definition example_env :: "pystr list \<Rightarrow> environment" where
  "example_env names =
     \<lparr>BASE_DIR = str ''/app'',
      listdir = (\<lambda>path. if path = str ''/app/static/avatars'' then Inr names else Inl (OSError 2))\<rparr>"

definition missing_dir_env :: environment where
  "missing_dir_env = \<lparr>BASE_DIR = str ''/app'', listdir = (\<lambda>path. Inl (OSError 2))\<rparr>"

definition ViajeForm_example_fields :: "widget_class \<Rightarrow> nat list \<Rightarrow> fields" where
  "ViajeForm_example_fields pilotos_widget guias =
     [(''nombre'', plain_field CharField TextInput []),
      (''detalle'', plain_field CharField Textarea [(''rows'', PyInt 4)]),
      (''fecha_salida'', plain_field DateField DateInput []),
      (''cant_dias'', plain_field IntegerField NumberInput []),
      (''km'', plain_field IntegerField NumberInput []),
      (''dificultad'', plain_field CharField TextInput []),
      (''guia'', (plain_field ModelChoiceField Select [])
                  \<lparr>required := False, queryset := Some guias,
                   empty_label := Some (str ''---------'')\<rparr>),
      (''pilotos'', (plain_field ModelMultipleChoiceField pilotos_widget [])
                     \<lparr>required := False, queryset := Some []\<rparr>),
      (''activo'', (plain_field BooleanField CheckboxInput [])\<lparr>required := False\<rparr>),
      (''max_pilotos'', plain_field IntegerField NumberInput [])]"


section \<open>Properties\<close>

subsection \<open>Missing keys in \<open>cleaned_data\<close>\<close>

text \<open>
  Claim C10. The clean methods of \<open>EditarUsuarioForm\<close> index \<open>cleaned_data\<close> without a
  guard: when the key is absent they raise \<open>KeyError\<close> and return nothing. The clean
  methods of \<open>RegistroForm\<close> read the same key with a default and return the
  capitalisation of the empty string, which is the empty string.
\<close>

theorem EditarUsuarioForm_missing_key:
  "(cleaned_data ''first_name'' = None \<longrightarrow>
      EditarUsuarioForm_clean_first_name db cleaned_data = Inl (KeyError ''first_name'')
      \<and> RegistroForm_clean_first_name db cleaned_data = Inr [])
   \<and> (cleaned_data ''last_name'' = None \<longrightarrow>
      EditarUsuarioForm_clean_last_name db cleaned_data = Inl (KeyError ''last_name'')
      \<and> RegistroForm_clean_last_name db cleaned_data = Inr [])"
  by (simp add: EditarUsuarioForm_clean_first_name_def EditarUsuarioForm_clean_last_name_def
      RegistroForm_clean_first_name_def RegistroForm_clean_last_name_def
      dict_getitem_def dict_get_def str_capitalize_def)

theorem EditarUsuarioForm_missing_key_witness:
  "Map.empty ''first_name'' = (None :: pystr option)
   \<and> EditarUsuarioForm_clean_first_name latin1_db Map.empty = Inl (KeyError ''first_name'')
   \<and> RegistroForm_clean_first_name latin1_db Map.empty = Inr []
   \<and> EditarUsuarioForm_clean_last_name latin1_db Map.empty = Inl (KeyError ''last_name'')
   \<and> RegistroForm_clean_last_name latin1_db Map.empty = Inr []"
  using EditarUsuarioForm_missing_key [of Map.empty latin1_db] by simp

subsection \<open>Lower-casing and capitalisation\<close>

lemma lower_ucs4_stable: "lower_stable db (r ! i) \<Longrightarrow> lower_ucs4 db r i = [r ! i]"
  by (simp add: lower_ucs4_def lower_stable_def)

lemma concat_lower_stable:
  assumes "\<And>i. a \<le> i \<Longrightarrow> i < length r \<Longrightarrow> lower_stable db (r ! i)"
  shows "concat (map (lower_ucs4 db r) [a..<length r]) = drop a r"
proof -
  have "map (lower_ucs4 db r) [a..<length r] = map (\<lambda>i. [r ! i]) [a..<length r]"
    using assms by (intro map_cong) (auto simp: lower_ucs4_stable)
  then have "concat (map (lower_ucs4 db r) [a..<length r])
      = concat (map (\<lambda>i. [r ! i]) [a..<length r])"
    by (rule arg_cong)
  also have "\<dots> = map ((!) r) [a..<length r]"
    by simp
  also have "\<dots> = drop a (map ((!) r) [0..<length r])"
    by (simp add: drop_map drop_upt)
  finally show ?thesis by (simp add: map_nth)
qed

lemma lower_ucs4_outputs_stable:
  "case_mappings_stable db \<Longrightarrow> list_all (lower_stable db) (lower_ucs4 db s i)"
  by (simp add: case_mappings_stable_def lower_ucs4_def handle_capital_sigma_def Let_def)

lemma lowered_rest_stable:
  "case_mappings_stable db \<Longrightarrow> list_all (lower_stable db) (concat (map (lower_ucs4 db s) js))"
  by (induction js) (simp_all add: lower_ucs4_outputs_stable)

lemma capitalize_fixed:
  assumes t: "to_title_full db t = [t]" and r: "list_all (lower_stable db) r"
  shows "str_capitalize db (t # r) = t # r"
proof -
  have "\<And>i. 1 \<le> i \<Longrightarrow> i < length (t # r) \<Longrightarrow> lower_stable db ((t # r) ! i)"
    using r by (auto simp: list_all_length nth_Cons split: nat.splits)
  then have "concat (map (lower_ucs4 db (t # r)) [1..<length (t # r)]) = drop 1 (t # r)"
    by (rule concat_lower_stable)
  then show ?thesis
    using t by (simp add: str_capitalize_def)
qed

lemma str_lower_Cons:
  "str_lower db (c # cs)
     = lower_ucs4 db (c # cs) 0 @ concat (map (lower_ucs4 db (c # cs)) [1..<length (c # cs)])"
proof -
  have "[0..<length (c # cs)] = 0 # [1..<length (c # cs)]"
    by (subst upt_rec) simp
  then show ?thesis
    by (simp only: str_lower_def list.map concat.simps)
qed

lemma str_capitalize_Cons:
  "str_capitalize db (c # cs)
     = to_title_full db c @ drop (length (lower_ucs4 db (c # cs) 0)) (str_lower db (c # cs))"
  by (simp add: str_capitalize_def str_lower_Cons)

lemma latin1_lower_stable: "list_all (lower_stable latin1_db) (latin1_to_lower_full c)"
  by (simp add: lower_stable_def latin1_db_def latin1_to_lower_full_def)

lemma latin1_title_upper:
  "t \<le> 0x60 \<or> (0xC0 \<le> t \<and> t \<le> 0xDE) \<or> t = 0x178 \<or> t = 0x1C5 \<or> t = 0x39C \<or> t = 0x2BC
     \<or> t = 0x3A3
   \<Longrightarrow> latin1_to_title_full t = [t]"
  by (auto simp: latin1_to_title_full_def)

lemma latin1_title_stable:
  "latin1_to_title_full c \<noteq> []
   \<and> latin1_to_title_full (hd (latin1_to_title_full c)) = [hd (latin1_to_title_full c)]"
proof -
  have "latin1_to_title_full c = [c]"
    if "\<not> (0x61 \<le> c \<and> c \<le> 0x7A)" "\<not> (0xE0 \<le> c \<and> c \<le> 0xFE \<and> c \<noteq> 0xF7)"
      "c \<notin> set [0xB5, 0xDF, 0xFF, 0x149, 0x1C4, 0x1C6, 0x3BC, 0x3C2, 0x3C3]"
    using that by (auto simp: latin1_to_title_full_def)
  then consider (az) "0x61 \<le> c \<and> c \<le> 0x7A" | (lat) "0xE0 \<le> c \<and> c \<le> 0xFE \<and> c \<noteq> 0xF7"
    | (special) "c \<in> set [0xB5, 0xDF, 0xFF, 0x149, 0x1C4, 0x1C6, 0x3BC, 0x3C2, 0x3C3]"
    | (other) "latin1_to_title_full c = [c]"
    by blast
  then show ?thesis
  proof cases
    case az
    then have "latin1_to_title_full c = [c - 0x20]"
      by (simp add: latin1_to_title_full_def)
    moreover from az have "latin1_to_title_full (c - 0x20) = [c - 0x20]"
      by (intro latin1_title_upper) arith
    ultimately show ?thesis by simp
  next
    case lat
    then have "latin1_to_title_full c = [c - 0x20]"
      by (simp add: latin1_to_title_full_def)
    moreover from lat have "latin1_to_title_full (c - 0x20) = [c - 0x20]"
      by (intro latin1_title_upper) arith
    ultimately show ?thesis by simp
  next
    case special
    then consider "c = 0xB5" | "c = 0xDF" | "c = 0xFF" | "c = 0x149" | "c = 0x1C4" | "c = 0x1C6"
      | "c = 0x3BC" | "c = 0x3C2" | "c = 0x3C3"
      by auto
    then show ?thesis
      by cases (simp_all add: latin1_to_title_full_def)
  next
    case other
    then show ?thesis by simp
  qed
qed

lemma latin1_stable: "case_mappings_stable latin1_db"
proof -
  have "lower_stable latin1_db 0x3C2" "lower_stable latin1_db 0x3C3"
    by (simp_all add: lower_stable_def latin1_db_def latin1_to_lower_full_def)
  moreover have "to_lower_full latin1_db c = latin1_to_lower_full c"
    "to_title_full latin1_db c = latin1_to_title_full c" for c
    by (simp_all add: latin1_db_def)
  ultimately show ?thesis
    by (simp add: case_mappings_stable_def latin1_lower_stable latin1_title_stable)
qed

lemmas latin1_eval =
  str_def str_lower_def str_capitalize_def lower_ucs4_def latin1_db_def
  latin1_to_lower_full_def latin1_to_title_full_def upt_conv_Cons

text \<open>
  Claim C5 says that capitalisation is idempotent on every string. It is not: the
  title-case mapping of U+0149 (LATIN SMALL LETTER N PRECEDED BY APOSTROPHE) is the two
  characters U+02BC U+004E, and a second capitalisation lower-cases the capital N.
\<close>

theorem capitalize_not_idempotent:
  "str_capitalize latin1_db [0x149] = [0x2BC, 0x4E]
   \<and> str_capitalize latin1_db (str_capitalize latin1_db [0x149]) = [0x2BC, 0x6E]
   \<and> str_capitalize latin1_db (str_capitalize latin1_db [0x149]) \<noteq> str_capitalize latin1_db [0x149]"
  by (simp add: latin1_eval)

text \<open>
  Claim C5, amended. Over a database with stable case mappings, capitalisation is
  idempotent on the empty string and on every string whose first character has a
  title-case mapping that lower-casing leaves unchanged after its first code point (in
  particular on every string whose first character title-cases to a single code
  point).
\<close>

theorem capitalize_idempotent:
  assumes db: "case_mappings_stable db"
    and s: "\<And>c cs. s = c # cs \<Longrightarrow> list_all (lower_stable db) (tl (to_title_full db c))"
  shows "str_capitalize db (str_capitalize db s) = str_capitalize db s"
proof (cases s)
  case Nil
  then show ?thesis by (simp add: str_capitalize_def)
next
  case (Cons c cs)
  from db have "to_title_full db c \<noteq> []
      \<and> to_title_full db (hd (to_title_full db c)) = [hd (to_title_full db c)]"
    by (simp add: case_mappings_stable_def)
  then obtain t ts where tt: "to_title_full db c = t # ts" and t: "to_title_full db t = [t]"
    by (cases "to_title_full db c") auto
  let ?L = "concat (map (lower_ucs4 db s) [1..<length s])"
  have cap: "str_capitalize db s = t # (ts @ ?L)"
    using Cons tt by (simp add: str_capitalize_def)
  have "list_all (lower_stable db) (ts @ ?L)"
    using s [OF Cons] tt lowered_rest_stable [OF db] by simp
  with t have "str_capitalize db (t # (ts @ ?L)) = t # (ts @ ?L)"
    by (rule capitalize_fixed)
  with cap show ?thesis by simp
qed

theorem capitalize_idempotent_witness:
  "case_mappings_stable latin1_db
   \<and> list_all (lower_stable latin1_db) (tl (to_title_full latin1_db 0x6D))
   \<and> str_capitalize latin1_db (str_capitalize latin1_db (str ''mar'' @ [0xED] @ str ''a''))
       = str_capitalize latin1_db (str ''mar'' @ [0xED] @ str ''a'')
   \<and> str_capitalize latin1_db (str_capitalize latin1_db []) = str_capitalize latin1_db []"
proof -
  have m: "list_all (lower_stable latin1_db) (tl (to_title_full latin1_db 0x6D))"
    by (simp add: latin1_db_def latin1_to_title_full_def)
  have "list_all (lower_stable latin1_db) (tl (to_title_full latin1_db c))"
    if "str ''mar'' @ [0xED] @ str ''a'' = c # cs" for c cs
    using that m by (simp add: str_def)
  then have "str_capitalize latin1_db (str_capitalize latin1_db (str ''mar'' @ [0xED] @ str ''a''))
       = str_capitalize latin1_db (str ''mar'' @ [0xED] @ str ''a'')"
    by (rule capitalize_idempotent [OF latin1_stable])
  moreover have "str_capitalize latin1_db (str_capitalize latin1_db []) = str_capitalize latin1_db []"
    by (rule capitalize_idempotent [OF latin1_stable]) simp
  ultimately show ?thesis
    using latin1_stable m by simp
qed




subsection \<open>Dictionaries of fields\<close>

lemma and_then_Inr:
  "and_then m f = Inr y \<longleftrightarrow> (\<exists>x. m = Inr x \<and> f x = Inr y)"
  by (cases m) (simp_all add: and_then_def)

lemma setattr_field_Inr:
  "setattr_field k g fs = Inr fs' \<longleftrightarrow> (\<exists>f. map_of fs k = Some f \<and> fs' = AList.update k (g f) fs)"
  by (auto simp: setattr_field_def and_then_def dict_getitem_def split: option.splits)

lemma setattr_field_Inl:
  "map_of fs k = None \<Longrightarrow> setattr_field k g fs = Inl (KeyError k)"
  by (simp add: setattr_field_def and_then_def dict_getitem_def)

lemma set_update_subset: "set (AList.update k v fs) \<subseteq> insert (k, v) (set fs)"
  by (induction fs) auto

lemma map_of_update_other: "k' \<noteq> k \<Longrightarrow> map_of (AList.update k v fs) k' = map_of fs k'"
  by (simp add: update_conv')

lemma map_of_update_same: "map_of (AList.update k v fs) k = Some v"
  by (simp add: update_conv')

lemma widget_attr_set_other:
  "k' \<noteq> k \<Longrightarrow> widget_attr (set_widget_attr k v f) k' = widget_attr f k'"
  by (simp add: widget_attr_def set_widget_attr_def update_conv')

lemma widget_attr_set_same: "widget_attr (set_widget_attr k v f) k = Some v"
  by (simp add: widget_attr_def set_widget_attr_def update_conv')

lemma widget_class_set_widget_attr [simp]:
  "widget_class (widget (set_widget_attr k v f)) = widget_class (widget f)"
  by (simp add: set_widget_attr_def)

lemma queryset_set_widget_attr [simp]: "queryset (set_widget_attr k v f) = queryset f"
  by (simp add: set_widget_attr_def)

text \<open>
  A field is styled when its widget is a \<open>CheckboxSelectMultiple\<close> or carries the class
  \<open>form-control\<close>; the steps of the constructor keep every field of the dictionary styled.
\<close>

lemma styled_set_id: "styled f \<Longrightarrow> styled (set_widget_attr ''id'' v f)"
  by (simp add: styled_def widget_attr_set_other)

lemma styled_label: "styled f \<Longrightarrow> styled (f\<lparr>label := l\<rparr>)"
  by (simp add: styled_def widget_attr_def)

lemma styled_empty_label: "styled f \<Longrightarrow> styled (f\<lparr>empty_label := l\<rparr>)"
  by (simp add: styled_def widget_attr_def)

lemma styled_activo: "styled ViajeForm_activo"
  by (simp add: styled_def ViajeForm_activo_def widget_attr_def)

lemma styled_update:
  assumes "\<forall>(n, f) \<in> set fs. styled f" and "styled v"
  shows "\<forall>(n, f) \<in> set (AList.update k v fs). styled f"
  using assms set_update_subset [of k v fs] by auto

lemma styled_setattr:
  assumes "\<forall>(n, f) \<in> set fs. styled f" and "\<And>f. styled f \<Longrightarrow> styled (g f)"
    and "setattr_field k g fs = Inr fs'"
  shows "\<forall>(n, f) \<in> set fs'. styled f"
proof -
  from assms(3) obtain f where f: "map_of fs k = Some f" and fs': "fs' = AList.update k (g f) fs"
    by (auto simp: setattr_field_Inr)
  from f have "(k, f) \<in> set fs" by (rule map_of_SomeD)
  with assms(1) have "styled f" by auto
  then have "styled (g f)" by (rule assms(2))
  with assms(1) show ?thesis unfolding fs' by (rule styled_update)
qed

lemma styled_guia_label:
  assumes "\<forall>(n, f) \<in> set fs. styled f"
  shows "\<forall>(n, f) \<in> set (ViajeForm_guia_label fs). styled f"
proof (cases "map_of fs ''guia''")
  case None
  with assms show ?thesis by (simp add: ViajeForm_guia_label_def)
next
  case (Some g)
  then have "(''guia'', g) \<in> set fs" by (rule map_of_SomeD)
  with assms have "styled g" by auto
  show ?thesis
  proof (cases "queryset g")
    case None
    with Some assms show ?thesis by (simp add: ViajeForm_guia_label_def)
  next
    case (Some qs)
    from \<open>styled g\<close> have "styled (g\<lparr>empty_label := l\<rparr>)" for l by (rule styled_empty_label)
    with assms have "\<forall>(n, f) \<in> set (AList.update ''guia'' (g\<lparr>empty_label := l\<rparr>) fs). styled f"
      for l
      by (rule styled_update)
    with \<open>map_of fs ''guia'' = Some g\<close> Some show ?thesis
      by (simp add: ViajeForm_guia_label_def)
  qed
qed

lemma map_of_guia_label_other:
  "k \<noteq> ''guia'' \<Longrightarrow> map_of (ViajeForm_guia_label fs) k = map_of fs k"
  by (simp add: ViajeForm_guia_label_def map_of_update_other split: option.splits)

lemma map_of_style_fields:
  "map_of (ViajeForm_style_fields fs) k =
     map_option (\<lambda>f. if \<not> isinstance_CheckboxSelectMultiple (widget f)
                      then set_widget_attr ''class'' (PyStr (str ''form-control'')) f else f)
       (map_of fs k)"
  by (induction fs) (auto simp: ViajeForm_style_fields_def)

lemma styled_style_field:
  "styled (if \<not> isinstance_CheckboxSelectMultiple (widget f)
           then set_widget_attr ''class'' (PyStr (str ''form-control'')) f else f)"
  by (simp add: styled_def isinstance_CheckboxSelectMultiple_def widget_attr_set_same)

lemma style_fields_styled: "\<forall>(n, f) \<in> set (ViajeForm_style_fields fs). styled f"
  unfolding ViajeForm_style_fields_def using styled_style_field by auto

text \<open>The steps of a construction of \<open>ViajeForm\<close> that raises nothing.\<close>

lemma ViajeForm_init_InrD:
  assumes "ViajeForm_init fields0 = Inr fields5"
  obtains fields2 fields3 fields4 where
    "setattr_field ''pilotos'' (set_widget_attr ''id'' (PyStr (str ''id_pilotos'')))
       (ViajeForm_style_fields fields0) = Inr fields2"
    "setattr_field ''km'' (\<lambda>f. f\<lparr>label := Some (str ''Kil'' @ [0xF3] @ str ''metros'')\<rparr>) fields2
       = Inr fields3"
    "setattr_field ''max_pilotos''
       (\<lambda>f. f\<lparr>label := Some (str ''M'' @ [0xE1] @ str ''xima cantidad de pilotos'')\<rparr>) fields3
       = Inr fields4"
    "fields5 = AList.update ''activo'' ViajeForm_activo (ViajeForm_guia_label fields4)"
  using assms unfolding ViajeForm_init_def and_then_Inr by blast


lemma map_of_setattr_other:
  "setattr_field k g fs = Inr fs' \<Longrightarrow> k' \<noteq> k \<Longrightarrow> map_of fs' k' = map_of fs k'"
  by (auto simp: setattr_field_Inr map_of_update_other)

lemma map_of_setattr_same:
  "setattr_field k g fs = Inr fs' \<Longrightarrow> map_of fs' k = map_option g (map_of fs k)"
  by (auto simp: setattr_field_Inr map_of_update_same)

lemma ViajeForm_init_lookup:
  assumes "ViajeForm_init fields0 = Inr fields5"
    and "k \<notin> set [''pilotos'', ''km'', ''max_pilotos'', ''guia'', ''activo'']"
  shows "map_of fields5 k = map_of (ViajeForm_style_fields fields0) k"
proof -
  from assms(1) obtain fields2 fields3 fields4 where
    s2: "setattr_field ''pilotos'' (set_widget_attr ''id'' (PyStr (str ''id_pilotos'')))
       (ViajeForm_style_fields fields0) = Inr fields2"
    and s3: "setattr_field ''km'' (\<lambda>f. f\<lparr>label := Some (str ''Kil'' @ [0xF3] @ str ''metros'')\<rparr>)
       fields2 = Inr fields3"
    and s4: "setattr_field ''max_pilotos''
       (\<lambda>f. f\<lparr>label := Some (str ''M'' @ [0xE1] @ str ''xima cantidad de pilotos'')\<rparr>) fields3
       = Inr fields4"
    and s5: "fields5 = AList.update ''activo'' ViajeForm_activo (ViajeForm_guia_label fields4)"
    by (rule ViajeForm_init_InrD)
  from assms(2) have k: "k \<noteq> ''pilotos''" "k \<noteq> ''km''" "k \<noteq> ''max_pilotos''" "k \<noteq> ''guia''"
    "k \<noteq> ''activo''"
    by auto
  show ?thesis
    using k map_of_setattr_other [OF s2] map_of_setattr_other [OF s3] map_of_setattr_other [OF s4]
    by (simp add: s5 map_of_update_other map_of_guia_label_other)
qed

lemma ViajeForm_init_pilotos:
  assumes "ViajeForm_init fields0 = Inr fields5"
  shows "map_of fields5 ''pilotos''
    = map_option (set_widget_attr ''id'' (PyStr (str ''id_pilotos'')))
        (map_of (ViajeForm_style_fields fields0) ''pilotos'')"
    and "map_of (ViajeForm_style_fields fields0) ''pilotos'' \<noteq> None"
proof -
  from assms(1) obtain fields2 fields3 fields4 where
    s2: "setattr_field ''pilotos'' (set_widget_attr ''id'' (PyStr (str ''id_pilotos'')))
       (ViajeForm_style_fields fields0) = Inr fields2"
    and s3: "setattr_field ''km'' (\<lambda>f. f\<lparr>label := Some (str ''Kil'' @ [0xF3] @ str ''metros'')\<rparr>)
       fields2 = Inr fields3"
    and s4: "setattr_field ''max_pilotos''
       (\<lambda>f. f\<lparr>label := Some (str ''M'' @ [0xE1] @ str ''xima cantidad de pilotos'')\<rparr>) fields3
       = Inr fields4"
    and s5: "fields5 = AList.update ''activo'' ViajeForm_activo (ViajeForm_guia_label fields4)"
    by (rule ViajeForm_init_InrD)
  have "map_of fields5 ''pilotos'' = map_of fields2 ''pilotos''"
    using map_of_setattr_other [OF s3, of "''pilotos''"] map_of_setattr_other [OF s4, of "''pilotos''"]
    by (simp add: s5 map_of_update_other map_of_guia_label_other)
  then show "map_of fields5 ''pilotos''
    = map_option (set_widget_attr ''id'' (PyStr (str ''id_pilotos'')))
        (map_of (ViajeForm_style_fields fields0) ''pilotos'')"
    using map_of_setattr_same [OF s2] by simp
  from s2 show "map_of (ViajeForm_style_fields fields0) ''pilotos'' \<noteq> None"
    by (auto simp: setattr_field_Inr)
qed

lemma ViajeForm_init_guia:
  assumes "ViajeForm_init fields0 = Inr fields5"
  shows "map_of fields5 ''guia''
    = map_of (ViajeForm_guia_label (ViajeForm_style_fields fields0)) ''guia''"
proof -
  from assms(1) obtain fields2 fields3 fields4 where
    s2: "setattr_field ''pilotos'' (set_widget_attr ''id'' (PyStr (str ''id_pilotos'')))
       (ViajeForm_style_fields fields0) = Inr fields2"
    and s3: "setattr_field ''km'' (\<lambda>f. f\<lparr>label := Some (str ''Kil'' @ [0xF3] @ str ''metros'')\<rparr>)
       fields2 = Inr fields3"
    and s4: "setattr_field ''max_pilotos''
       (\<lambda>f. f\<lparr>label := Some (str ''M'' @ [0xE1] @ str ''xima cantidad de pilotos'')\<rparr>) fields3
       = Inr fields4"
    and s5: "fields5 = AList.update ''activo'' ViajeForm_activo (ViajeForm_guia_label fields4)"
    by (rule ViajeForm_init_InrD)
  have g4: "map_of fields4 ''guia'' = map_of (ViajeForm_style_fields fields0) ''guia''"
    using map_of_setattr_other [OF s2, of "''guia''"] map_of_setattr_other [OF s3, of "''guia''"]
      map_of_setattr_other [OF s4, of "''guia''"]
    by simp
  have "map_of (ViajeForm_guia_label fs) ''guia''
      = map_of (ViajeForm_guia_label fs') ''guia''" if "map_of fs ''guia'' = map_of fs' ''guia''"
    for fs fs' :: fields
    using that by (simp add: ViajeForm_guia_label_def map_of_update_same split: option.splits)
  from this [OF g4] show ?thesis
    by (simp add: s5 map_of_update_other)
qed


subsection \<open>GuiaForm\<close>

text \<open>
  Claim C7. After the construction of \<open>GuiaForm\<close> the dictionary has the same field
  names in the same order, and the widget of every field, without exception, carries
  the class \<open>form-control\<close>.
\<close>

theorem GuiaForm_all_form_control:
  "map fst (GuiaForm_init fields0) = map fst fields0
   \<and> (\<forall>(name, f) \<in> set (GuiaForm_init fields0).
         widget_attr f ''class'' = Some (PyStr (str ''form-control'')))"
  by (auto simp: GuiaForm_init_def widget_attr_set_same)

theorem GuiaForm_all_form_control_witness:
  "map fst (GuiaForm_init GuiaForm_example_fields)
     = [''nombre'', ''apellido'', ''email'', ''dni'', ''telefono'', ''fecha_nac'', ''ciudad'',
        ''pais'', ''sobre_mi'', ''foto'']
   \<and> list_all (\<lambda>(name, f). widget_attr f ''class'' = Some (PyStr (str ''form-control'')))
       (GuiaForm_init GuiaForm_example_fields)"
proof -
  have "map fst GuiaForm_example_fields
     = [''nombre'', ''apellido'', ''email'', ''dni'', ''telefono'', ''fecha_nac'', ''ciudad'',
        ''pais'', ''sobre_mi'', ''foto'']"
    by (simp add: GuiaForm_example_fields_def)
  then show ?thesis
    using GuiaForm_all_form_control [of GuiaForm_example_fields]
    by (simp add: list_all_iff)
qed


subsection \<open>ViajeForm\<close>

lemma ViajeForm_init_succeeds:
  assumes "map_of fields0 ''pilotos'' \<noteq> None" and "map_of fields0 ''km'' \<noteq> None"
    and "map_of fields0 ''max_pilotos'' \<noteq> None"
  shows "\<exists>fs. ViajeForm_init fields0 = Inr fs"
proof -
  from assms(1) obtain fields2 where
    s2: "setattr_field ''pilotos'' (set_widget_attr ''id'' (PyStr (str ''id_pilotos'')))
       (ViajeForm_style_fields fields0) = Inr fields2"
    by (auto simp: setattr_field_Inr map_of_style_fields)
  from assms(2) have "map_of fields2 ''km'' \<noteq> None"
    using map_of_setattr_other [OF s2, of "''km''"] by (simp add: map_of_style_fields)
  then obtain fields3 where
    s3: "setattr_field ''km'' (\<lambda>f. f\<lparr>label := Some (str ''Kil'' @ [0xF3] @ str ''metros'')\<rparr>)
       fields2 = Inr fields3"
    by (auto simp: setattr_field_Inr)
  from assms(3) have "map_of fields3 ''max_pilotos'' \<noteq> None"
    using map_of_setattr_other [OF s2, of "''max_pilotos''"]
      map_of_setattr_other [OF s3, of "''max_pilotos''"]
    by (simp add: map_of_style_fields)
  then obtain fields4 where
    s4: "setattr_field ''max_pilotos''
       (\<lambda>f. f\<lparr>label := Some (str ''M'' @ [0xE1] @ str ''xima cantidad de pilotos'')\<rparr>) fields3
       = Inr fields4"
    by (auto simp: setattr_field_Inr)
  show ?thesis
    unfolding ViajeForm_init_def and_then_Inr using s2 s3 s4 by blast
qed

lemma ViajeForm_example_Inr:
  "\<exists>fs. ViajeForm_init (ViajeForm_example_fields w qs) = Inr fs"
  by (rule ViajeForm_init_succeeds) (simp_all add: ViajeForm_example_fields_def)

text \<open>
  Claim C1 says that every field except \<open>pilotos\<close> gets the class \<open>form-control\<close> and that
  \<open>pilotos\<close> gets none. The constructor exempts a field by the type of its widget, not
  by its name: with the default widget of a multiple-choice model field
  (\<open>SelectMultiple\<close>) the field \<open>pilotos\<close> gets the class as well.
\<close>

theorem ViajeForm_pilotos_form_control:
  "(case ViajeForm_init (ViajeForm_example_fields SelectMultiple []) of
      Inl e \<Rightarrow> None
    | Inr fs \<Rightarrow> map_option (\<lambda>f. (widget_attr f ''class'', widget_attr f ''id''))
                 (map_of fs ''pilotos''))
   = Some (Some (PyStr (str ''form-control'')), Some (PyStr (str ''id_pilotos'')))"
proof -
  obtain fs where fs: "ViajeForm_init (ViajeForm_example_fields SelectMultiple []) = Inr fs"
    using ViajeForm_example_Inr by blast
  have "map_of (ViajeForm_example_fields SelectMultiple []) ''pilotos''
      = Some ((plain_field ModelMultipleChoiceField SelectMultiple [])
               \<lparr>required := False, queryset := Some []\<rparr>)"
    by (simp add: ViajeForm_example_fields_def)
  then have "map_of fs ''pilotos''
      = Some (set_widget_attr ''id'' (PyStr (str ''id_pilotos''))
               (set_widget_attr ''class'' (PyStr (str ''form-control''))
                 ((plain_field ModelMultipleChoiceField SelectMultiple [])
                    \<lparr>required := False, queryset := Some []\<rparr>)))"
    using ViajeForm_init_pilotos(1) [OF fs]
    by (simp add: map_of_style_fields isinstance_CheckboxSelectMultiple_def plain_field_def)
  then show ?thesis
    by (simp add: fs widget_attr_set_same widget_attr_set_other)
qed

text \<open>
  Claim C1, amended. After a construction of \<open>ViajeForm\<close> that raises nothing, every
  field whose widget is not a \<open>CheckboxSelectMultiple\<close> carries the class
  \<open>form-control\<close>. The field \<open>pilotos\<close> keeps its widget type and carries the attribute
  \<open>id = id_pilotos\<close>; its class attribute is the one it had before when its widget is a
  \<open>CheckboxSelectMultiple\<close>, and \<open>form-control\<close> otherwise.
\<close>

theorem ViajeForm_form_control:
  assumes "ViajeForm_init fields0 = Inr fields5"
  shows "(\<forall>(name, f) \<in> set fields5.
            widget_class (widget f) \<noteq> CheckboxSelectMultiple
            \<longrightarrow> widget_attr f ''class'' = Some (PyStr (str ''form-control'')))
    \<and> (\<exists>p0 p. map_of fields0 ''pilotos'' = Some p0 \<and> map_of fields5 ''pilotos'' = Some p
          \<and> widget_class (widget p) = widget_class (widget p0)
          \<and> widget_attr p ''id'' = Some (PyStr (str ''id_pilotos''))
          \<and> widget_attr p ''class''
              = (if widget_class (widget p0) = CheckboxSelectMultiple
                 then widget_attr p0 ''class'' else Some (PyStr (str ''form-control''))))"
proof
  from assms obtain fields2 fields3 fields4 where
    s2: "setattr_field ''pilotos'' (set_widget_attr ''id'' (PyStr (str ''id_pilotos'')))
       (ViajeForm_style_fields fields0) = Inr fields2"
    and s3: "setattr_field ''km'' (\<lambda>f. f\<lparr>label := Some (str ''Kil'' @ [0xF3] @ str ''metros'')\<rparr>)
       fields2 = Inr fields3"
    and s4: "setattr_field ''max_pilotos''
       (\<lambda>f. f\<lparr>label := Some (str ''M'' @ [0xE1] @ str ''xima cantidad de pilotos'')\<rparr>) fields3
       = Inr fields4"
    and s5: "fields5 = AList.update ''activo'' ViajeForm_activo (ViajeForm_guia_label fields4)"
    by (rule ViajeForm_init_InrD)
  have "\<forall>(n, f) \<in> set (ViajeForm_style_fields fields0). styled f"
    by (rule style_fields_styled)
  then have "\<forall>(n, f) \<in> set fields2. styled f"
    using styled_set_id s2 by (rule styled_setattr)
  then have "\<forall>(n, f) \<in> set fields3. styled f"
    using styled_label s3 by (rule styled_setattr)
  then have "\<forall>(n, f) \<in> set fields4. styled f"
    using styled_label s4 by (rule styled_setattr)
  then have "\<forall>(n, f) \<in> set (ViajeForm_guia_label fields4). styled f"
    by (rule styled_guia_label)
  then have "\<forall>(n, f) \<in> set fields5. styled f"
    unfolding s5 using styled_activo by (rule styled_update)
  then show "\<forall>(name, f) \<in> set fields5.
            widget_class (widget f) \<noteq> CheckboxSelectMultiple
            \<longrightarrow> widget_attr f ''class'' = Some (PyStr (str ''form-control''))"
    by (auto simp: styled_def)
next
  from ViajeForm_init_pilotos [OF assms] obtain p1 where
    p1: "map_of (ViajeForm_style_fields fields0) ''pilotos'' = Some p1"
    and p: "map_of fields5 ''pilotos'' = Some (set_widget_attr ''id'' (PyStr (str ''id_pilotos'')) p1)"
    by auto
  from p1 obtain p0 where p0: "map_of fields0 ''pilotos'' = Some p0"
    and p10: "p1 = (if \<not> isinstance_CheckboxSelectMultiple (widget p0)
                   then set_widget_attr ''class'' (PyStr (str ''form-control'')) p0 else p0)"
    by (auto simp: map_of_style_fields)
  have "widget_class (widget (set_widget_attr ''id'' (PyStr (str ''id_pilotos'')) p1))
      = widget_class (widget p0)"
    by (simp add: p10)
  moreover have "widget_attr (set_widget_attr ''id'' (PyStr (str ''id_pilotos'')) p1) ''id''
      = Some (PyStr (str ''id_pilotos''))"
    by (rule widget_attr_set_same)
  moreover have "widget_attr (set_widget_attr ''id'' (PyStr (str ''id_pilotos'')) p1) ''class''
      = (if widget_class (widget p0) = CheckboxSelectMultiple
         then widget_attr p0 ''class'' else Some (PyStr (str ''form-control'')))"
    by (simp add: p10 widget_attr_set_other widget_attr_set_same
        isinstance_CheckboxSelectMultiple_def)
  ultimately show "\<exists>p0 p. map_of fields0 ''pilotos'' = Some p0 \<and> map_of fields5 ''pilotos'' = Some p
          \<and> widget_class (widget p) = widget_class (widget p0)
          \<and> widget_attr p ''id'' = Some (PyStr (str ''id_pilotos''))
          \<and> widget_attr p ''class''
              = (if widget_class (widget p0) = CheckboxSelectMultiple
                 then widget_attr p0 ''class'' else Some (PyStr (str ''form-control'')))"
    using p0 p by blast
qed

theorem ViajeForm_form_control_witness:
  "\<exists>fs p n. ViajeForm_init (ViajeForm_example_fields CheckboxSelectMultiple []) = Inr fs
     \<and> map_of fs ''pilotos'' = Some p
     \<and> widget_class (widget p) = CheckboxSelectMultiple
     \<and> widget_attr p ''id'' = Some (PyStr (str ''id_pilotos''))
     \<and> widget_attr p ''class'' = None
     \<and> map_of fs ''nombre'' = Some n
     \<and> widget_attr n ''class'' = Some (PyStr (str ''form-control''))"
proof -
  obtain fs where fs: "ViajeForm_init (ViajeForm_example_fields CheckboxSelectMultiple []) = Inr fs"
    using ViajeForm_example_Inr by blast
  have p0: "map_of (ViajeForm_example_fields CheckboxSelectMultiple []) ''pilotos''
      = Some ((plain_field ModelMultipleChoiceField CheckboxSelectMultiple [])
               \<lparr>required := False, queryset := Some []\<rparr>)"
    by (simp add: ViajeForm_example_fields_def)
  have "map_of (ViajeForm_example_fields CheckboxSelectMultiple []) ''nombre''
      = Some (plain_field CharField TextInput [])"
    by (simp add: ViajeForm_example_fields_def)
  then have n: "map_of fs ''nombre''
      = Some (set_widget_attr ''class'' (PyStr (str ''form-control''))
               (plain_field CharField TextInput []))"
    using ViajeForm_init_lookup [OF fs, of "''nombre''"]
    by (simp add: map_of_style_fields isinstance_CheckboxSelectMultiple_def plain_field_def)
  from ViajeForm_form_control [OF fs] p0 obtain p where
    all: "\<forall>(name, f) \<in> set fs. widget_class (widget f) \<noteq> CheckboxSelectMultiple
            \<longrightarrow> widget_attr f ''class'' = Some (PyStr (str ''form-control''))"
    and p: "map_of fs ''pilotos'' = Some p" "widget_class (widget p) = CheckboxSelectMultiple"
      "widget_attr p ''id'' = Some (PyStr (str ''id_pilotos''))"
      "widget_attr p ''class'' = None"
    by (auto simp: plain_field_def widget_attr_def)
  from n have "(''nombre'', set_widget_attr ''class'' (PyStr (str ''form-control''))
               (plain_field CharField TextInput [])) \<in> set fs"
    by (rule map_of_SomeD)
  with all have "widget_attr (set_widget_attr ''class'' (PyStr (str ''form-control''))
               (plain_field CharField TextInput [])) ''class'' = Some (PyStr (str ''form-control''))"
    by (auto simp: plain_field_def)
  with fs p n show ?thesis by blast
qed

text \<open>
  Claim C3. When the dictionary has a field \<open>guia\<close> with a queryset, a construction of
  \<open>ViajeForm\<close> that raises nothing leaves that field with the empty-option label
  \<open>A\<close> U+00FA \<open>n sin asignar\<close> when the queryset is empty, and with
  \<open>Seleccione una gu\<close> U+00ED \<open>a\<close> when it holds at least one row.
\<close>

theorem ViajeForm_guia_empty_label:
  assumes "ViajeForm_init fields0 = Inr fields5"
    and "map_of fields0 ''guia'' = Some guia_field"
    and "queryset guia_field = Some qs"
  shows "\<exists>g. map_of fields5 ''guia'' = Some g
    \<and> (qs = [] \<longrightarrow> empty_label g = Some (str ''A'' @ [0xFA] @ str ''n sin asignar''))
    \<and> (qs \<noteq> [] \<longrightarrow> empty_label g = Some (str ''Seleccione una gu'' @ [0xED] @ str ''a''))"
proof -
  let ?g1 = "if \<not> isinstance_CheckboxSelectMultiple (widget guia_field)
             then set_widget_attr ''class'' (PyStr (str ''form-control'')) guia_field
             else guia_field"
  have g1: "map_of (ViajeForm_style_fields fields0) ''guia'' = Some ?g1"
    using assms(2) by (simp add: map_of_style_fields)
  have q1: "queryset ?g1 = Some qs"
    using assms(3) by simp
  have "map_of (ViajeForm_guia_label (ViajeForm_style_fields fields0)) ''guia''
      = Some (?g1\<lparr>empty_label :=
                 Some (if \<not> queryset_exists qs
                       then str ''A'' @ [0xFA] @ str ''n sin asignar''
                       else str ''Seleccione una gu'' @ [0xED] @ str ''a'')\<rparr>)"
    unfolding ViajeForm_guia_label_def g1 option.case q1 by (rule map_of_update_same)
  then have "map_of fields5 ''guia''
      = Some (?g1\<lparr>empty_label :=
                 Some (if \<not> queryset_exists qs
                       then str ''A'' @ [0xFA] @ str ''n sin asignar''
                       else str ''Seleccione una gu'' @ [0xED] @ str ''a'')\<rparr>)"
    by (simp only: ViajeForm_init_guia [OF assms(1)])
  then show ?thesis
    by (simp add: queryset_exists_def)
qed

theorem ViajeForm_guia_empty_label_witness:
  "(\<exists>fs g. ViajeForm_init (ViajeForm_example_fields SelectMultiple []) = Inr fs
      \<and> map_of fs ''guia'' = Some g
      \<and> empty_label g = Some (str ''A'' @ [0xFA] @ str ''n sin asignar''))
   \<and> (\<exists>fs g. ViajeForm_init (ViajeForm_example_fields SelectMultiple [7, 12]) = Inr fs
      \<and> map_of fs ''guia'' = Some g
      \<and> empty_label g = Some (str ''Seleccione una gu'' @ [0xED] @ str ''a''))"
proof -
  have g: "map_of (ViajeForm_example_fields SelectMultiple qs) ''guia''
      = Some ((plain_field ModelChoiceField Select [])
                \<lparr>required := False, queryset := Some qs,
                 empty_label := Some (str ''---------'')\<rparr>)" for qs
    by (simp add: ViajeForm_example_fields_def)
  have q: "queryset ((plain_field ModelChoiceField Select [])
                \<lparr>required := False, queryset := Some qs,
                 empty_label := Some (str ''---------'')\<rparr>) = Some qs" for qs
    by simp
  obtain fs where fs: "ViajeForm_init (ViajeForm_example_fields SelectMultiple []) = Inr fs"
    using ViajeForm_example_Inr by blast
  obtain fs' where fs': "ViajeForm_init (ViajeForm_example_fields SelectMultiple [7, 12]) = Inr fs'"
    using ViajeForm_example_Inr by blast
  from ViajeForm_guia_empty_label [OF fs g q] ViajeForm_guia_empty_label [OF fs' g q] fs fs'
  show ?thesis
    by auto
qed

text \<open>
  Claim C9. After a construction of \<open>ViajeForm\<close> that raises nothing, the field \<open>activo\<close> is
  the choice field built at the end of the constructor, whatever it was before: its
  choices are \<open>True\<close> shown as \<open>Activo\<close> and \<open>False\<close> shown as \<open>Borrador\<close>, in this order,
  its widget is a \<open>Select\<close> and the widget carries the class \<open>form-control\<close>.
\<close>

theorem ViajeForm_activo_choices:
  assumes "ViajeForm_init fields0 = Inr fields5"
  shows "\<exists>a. map_of fields5 ''activo'' = Some a
    \<and> a = ViajeForm_activo
    \<and> field_class a = ChoiceField
    \<and> choices a = [(PyBool True, str ''Activo''), (PyBool False, str ''Borrador'')]
    \<and> widget_class (widget a) = Select
    \<and> widget_attr a ''class'' = Some (PyStr (str ''form-control''))"
proof -
  from assms obtain fields4 where
    "fields5 = AList.update ''activo'' ViajeForm_activo (ViajeForm_guia_label fields4)"
    by (rule ViajeForm_init_InrD)
  then have "map_of fields5 ''activo'' = Some ViajeForm_activo"
    by (simp only: map_of_update_same)
  then show ?thesis
    by (simp add: ViajeForm_activo_def widget_attr_def)
qed

theorem ViajeForm_activo_choices_witness:
  "\<exists>fs a. ViajeForm_init (ViajeForm_example_fields SelectMultiple [7]) = Inr fs
     \<and> map_of (ViajeForm_example_fields SelectMultiple [7]) ''activo''
         = Some ((plain_field BooleanField CheckboxInput [])\<lparr>required := False\<rparr>)
     \<and> map_of fs ''activo'' = Some a
     \<and> choices a = [(PyBool True, str ''Activo''), (PyBool False, str ''Borrador'')]
     \<and> widget_class (widget a) = Select
     \<and> widget_attr a ''class'' = Some (PyStr (str ''form-control''))"
proof -
  obtain fs where fs: "ViajeForm_init (ViajeForm_example_fields SelectMultiple [7]) = Inr fs"
    using ViajeForm_example_Inr by blast
  have "map_of (ViajeForm_example_fields SelectMultiple [7]) ''activo''
         = Some ((plain_field BooleanField CheckboxInput [])\<lparr>required := False\<rparr>)"
    by (simp add: ViajeForm_example_fields_def)
  with ViajeForm_activo_choices [OF fs] fs show ?thesis
    by blast
qed


subsection \<open>PilotoForm\<close>

lemma PilotoForm_init_listed:
  assumes "listdir env (os_path_join (BASE_DIR env) (str ''static/avatars'')) = Inr names"
  shows "PilotoForm_init env fields0
    = setattr_field ''avatar'' (\<lambda>f. f\<lparr>choices := map (\<lambda>a. (PyStr a, a)) (sort names)\<rparr>) fields0"
  using assms by (simp add: PilotoForm_init_def and_then_def)

lemma example_avatars_dir: "os_path_join (str ''/app'') (str ''static/avatars'') = str ''/app/static/avatars''"
  by (simp add: os_path_join_def str_def)

lemma example_env_listdir:
  "listdir (example_env names) (os_path_join (BASE_DIR (example_env names)) (str ''static/avatars''))
     = Inr names"
  by (simp add: example_env_def example_avatars_dir)

lemma example_avatar: "map_of PilotoForm_example_fields ''avatar'' = Some PilotoForm_avatar"
  by (simp add: PilotoForm_example_fields_def)

lemma sort_example:
  "sort [str ''b.png'', str ''a.png'', str ''C.png''] = [str ''C.png'', str ''a.png'', str ''b.png'']"
  by (simp add: str_def)

text \<open>
  Claim C2. When listing the avatar directory raises, the construction of \<open>PilotoForm\<close>
  raises the same exception: it reaches the caller unchanged, and no dictionary of
  fields is returned.
\<close>

theorem PilotoForm_listdir_fails:
  assumes "listdir env (os_path_join (BASE_DIR env) (str ''static/avatars'')) = Inl e"
  shows "PilotoForm_init env fields0 = Inl e"
  using assms by (simp add: PilotoForm_init_def and_then_def)

theorem PilotoForm_listdir_fails_witness:
  "listdir missing_dir_env (os_path_join (BASE_DIR missing_dir_env) (str ''static/avatars''))
     = Inl (OSError 2)
   \<and> PilotoForm_init missing_dir_env PilotoForm_example_fields = Inl (OSError 2)"
proof -
  have "listdir missing_dir_env (os_path_join (BASE_DIR missing_dir_env) (str ''static/avatars''))
     = Inl (OSError 2)"
    by (simp add: missing_dir_env_def)
  then show ?thesis
    using PilotoForm_listdir_fails [of missing_dir_env "OSError 2" PilotoForm_example_fields]
    by simp
qed

text \<open>
  Claim C4. When the directory listing succeeds and the dictionary has the field
  \<open>avatar\<close>, the construction succeeds and the choices of \<open>avatar\<close> are the listed names in
  ascending order of code points, each name both the stored value and the label: the
  labels are sorted and are a permutation of the listing. The listing \<open>b.png\<close>, \<open>a.png\<close>,
  \<open>C.png\<close> yields \<open>C.png\<close>, \<open>a.png\<close>, \<open>b.png\<close>.
\<close>

theorem PilotoForm_avatar_choices:
  "(listdir env (os_path_join (BASE_DIR env) (str ''static/avatars'')) = Inr names
      \<and> map_of fields0 ''avatar'' = Some f
    \<longrightarrow> (\<exists>fields1 f1. PilotoForm_init env fields0 = Inr fields1
          \<and> map_of fields1 ''avatar'' = Some f1
          \<and> choices f1 = map (\<lambda>a. (PyStr a, a)) (sort names)
          \<and> sorted (map snd (choices f1))
          \<and> mset (map snd (choices f1)) = mset names))
   \<and> (case PilotoForm_init (example_env [str ''b.png'', str ''a.png'', str ''C.png''])
              PilotoForm_example_fields of
         Inl e \<Rightarrow> None
       | Inr fs \<Rightarrow> map_option (\<lambda>f. map snd (choices f)) (map_of fs ''avatar''))
       = Some [str ''C.png'', str ''a.png'', str ''b.png'']"
proof
  show "listdir env (os_path_join (BASE_DIR env) (str ''static/avatars'')) = Inr names
      \<and> map_of fields0 ''avatar'' = Some f
    \<longrightarrow> (\<exists>fields1 f1. PilotoForm_init env fields0 = Inr fields1
          \<and> map_of fields1 ''avatar'' = Some f1
          \<and> choices f1 = map (\<lambda>a. (PyStr a, a)) (sort names)
          \<and> sorted (map snd (choices f1))
          \<and> mset (map snd (choices f1)) = mset names)"
  proof
    assume h: "listdir env (os_path_join (BASE_DIR env) (str ''static/avatars'')) = Inr names
      \<and> map_of fields0 ''avatar'' = Some f"
    let ?f1 = "f\<lparr>choices := map (\<lambda>a. (PyStr a, a)) (sort names)\<rparr>"
    let ?fields1 = "AList.update ''avatar'' ?f1 fields0"
    from h have "PilotoForm_init env fields0 = Inr ?fields1"
      by (simp add: PilotoForm_init_listed setattr_field_Inr)
    moreover have "map_of ?fields1 ''avatar'' = Some ?f1"
      by (rule map_of_update_same)
    moreover have "map snd (choices ?f1) = sort names"
      by (simp add: comp_def)
    ultimately show "\<exists>fields1 f1. PilotoForm_init env fields0 = Inr fields1
          \<and> map_of fields1 ''avatar'' = Some f1
          \<and> choices f1 = map (\<lambda>a. (PyStr a, a)) (sort names)
          \<and> sorted (map snd (choices f1))
          \<and> mset (map snd (choices f1)) = mset names"
      by (intro exI [of _ ?fields1] exI [of _ ?f1]) simp
  qed
next
  let ?names = "[str ''b.png'', str ''a.png'', str ''C.png'']"
  let ?f1 = "PilotoForm_avatar\<lparr>choices := map (\<lambda>a. (PyStr a, a)) (sort ?names)\<rparr>"
  have "PilotoForm_init (example_env ?names) PilotoForm_example_fields
      = Inr (AList.update ''avatar'' ?f1 PilotoForm_example_fields)"
    using example_avatar
    by (simp only: PilotoForm_init_listed [OF example_env_listdir] setattr_field_Inr) blast
  moreover have "map_of (AList.update ''avatar'' ?f1 PilotoForm_example_fields) ''avatar'' = Some ?f1"
    by (rule map_of_update_same)
  moreover have "map snd (choices ?f1) = sort ?names"
    by (simp add: comp_def del: sort_key_simps)
  ultimately show "(case PilotoForm_init (example_env ?names) PilotoForm_example_fields of
         Inl e \<Rightarrow> None
       | Inr fs \<Rightarrow> map_option (\<lambda>f. map snd (choices f)) (map_of fs ''avatar''))
       = Some [str ''C.png'', str ''a.png'', str ''b.png'']"
    by (simp only: sum.case option.map sort_example)
qed

theorem PilotoForm_avatar_choices_witness:
  "\<exists>fields1 f1. PilotoForm_init (example_env [str ''z.png'', str ''Z.png'']) PilotoForm_example_fields
       = Inr fields1
     \<and> map_of fields1 ''avatar'' = Some f1
     \<and> choices f1 = [(PyStr (str ''Z.png''), str ''Z.png''), (PyStr (str ''z.png''), str ''z.png'')]"
proof -
  let ?names = "[str ''z.png'', str ''Z.png'']"
  have s: "sort ?names = [str ''Z.png'', str ''z.png'']"
    by (simp add: str_def)
  have "listdir (example_env ?names)
          (os_path_join (BASE_DIR (example_env ?names)) (str ''static/avatars'')) = Inr ?names
        \<and> map_of PilotoForm_example_fields ''avatar'' = Some PilotoForm_avatar"
    using example_env_listdir example_avatar by (rule conjI)
  with PilotoForm_avatar_choices
         [of "example_env ?names" ?names PilotoForm_example_fields PilotoForm_avatar]
  obtain fields1 f1 where
    "PilotoForm_init (example_env ?names) PilotoForm_example_fields = Inr fields1"
    "map_of fields1 ''avatar'' = Some f1"
    "choices f1 = map (\<lambda>a. (PyStr a, a)) (sort ?names)"
    by blast
  then show ?thesis
    by (simp only: s list.map) blast
qed

text \<open>
  Claim C8 says that with an empty directory every submitted avatar value fails with
  \<open>invalid_choice\<close>. A submitted empty string does not: the field is required, and the
  check for a missing value comes first and raises \<open>required\<close>.
\<close>

theorem PilotoForm_empty_value_required:
  "(case PilotoForm_init (example_env []) PilotoForm_example_fields of
      Inl e \<Rightarrow> None
    | Inr fs \<Rightarrow> map_option (\<lambda>f. (choices f, ChoiceField_clean f (Some [])))
                 (map_of fs ''avatar''))
   = Some ([], Inl (ValidationError ''required''))"
proof -
  have "PilotoForm_init (example_env []) PilotoForm_example_fields
      = Inr (AList.update ''avatar''
               (PilotoForm_avatar\<lparr>choices := map (\<lambda>a. (PyStr a, a)) (sort [])\<rparr>)
               PilotoForm_example_fields)"
    using example_avatar
    by (simp only: PilotoForm_init_listed [OF example_env_listdir] setattr_field_Inr) blast
  then show ?thesis
    by (simp add: map_of_update_same PilotoForm_avatar_def ChoiceField_clean_def
        ChoiceField_to_python_def ChoiceField_validate_def Field_validate_def and_then_def)
qed

text \<open>
  Claim C8, amended. When the listing is empty and the field \<open>avatar\<close> is required (as
  the class declares it), the construction succeeds with an empty list of choices, and
  no submission validates: a missing or empty value fails with \<open>required\<close>, every other
  value with \<open>invalid_choice\<close>.
\<close>

theorem PilotoForm_empty_directory:
  assumes "listdir env (os_path_join (BASE_DIR env) (str ''static/avatars'')) = Inr []"
    and "map_of fields0 ''avatar'' = Some f"
    and "required f"
  shows "\<exists>fields1 f1. PilotoForm_init env fields0 = Inr fields1
    \<and> map_of fields1 ''avatar'' = Some f1
    \<and> choices f1 = []
    \<and> (\<forall>submitted. ChoiceField_clean f1 submitted
          = Inl (ValidationError (if ChoiceField_to_python submitted = []
                                  then ''required'' else ''invalid_choice'')))"
proof -
  let ?f1 = "f\<lparr>choices := map (\<lambda>a. (PyStr a, a)) (sort [])\<rparr>"
  let ?fields1 = "AList.update ''avatar'' ?f1 fields0"
  from assms(1,2) have "PilotoForm_init env fields0 = Inr ?fields1"
    by (simp add: PilotoForm_init_listed setattr_field_Inr)
  moreover have "map_of ?fields1 ''avatar'' = Some ?f1"
    by (rule map_of_update_same)
  moreover have "choices ?f1 = []"
    by simp
  moreover have "ChoiceField_clean ?f1 submitted
          = Inl (ValidationError (if ChoiceField_to_python submitted = []
                                  then ''required'' else ''invalid_choice''))" for submitted
    using assms(3)
    by (simp add: ChoiceField_clean_def ChoiceField_validate_def Field_validate_def
        valid_value_def and_then_def)
  ultimately show ?thesis
    by blast
qed

theorem PilotoForm_empty_directory_witness:
  "\<exists>fields1 f1. PilotoForm_init (example_env []) PilotoForm_example_fields = Inr fields1
     \<and> map_of fields1 ''avatar'' = Some f1
     \<and> choices f1 = []
     \<and> ChoiceField_clean f1 (Some (str ''a.png'')) = Inl (ValidationError ''invalid_choice'')
     \<and> ChoiceField_clean f1 None = Inl (ValidationError ''required'')"
proof -
  have r: "required PilotoForm_avatar"
    by (simp add: PilotoForm_avatar_def)
  from PilotoForm_empty_directory [OF example_env_listdir example_avatar r]
  obtain fields1 f1 where
    1: "PilotoForm_init (example_env []) PilotoForm_example_fields = Inr fields1"
      "map_of fields1 ''avatar'' = Some f1" "choices f1 = []"
    and c: "\<And>submitted. ChoiceField_clean f1 submitted
          = Inl (ValidationError (if ChoiceField_to_python submitted = []
                                  then ''required'' else ''invalid_choice''))"
    by blast
  have "ChoiceField_clean f1 (Some (str ''a.png'')) = Inl (ValidationError ''invalid_choice'')"
    by (simp add: c ChoiceField_to_python_def str_def)
  moreover have "ChoiceField_clean f1 None = Inl (ValidationError ''required'')"
    by (simp add: c ChoiceField_to_python_def)
  ultimately show ?thesis
    using 1 by blast
qed

end
